theory Spec2Isabelle
  imports Complex_Main "HOL-Library.Sublist" "HOL-Library.Multiset"
begin

section \<open>Development applications scraper: table reconstruction and record assembly\<close>

text \<open>
  A shallow embedding of \<^verbatim>\<open>scraper.js\<close>: the geometry helpers, the line extractor and
  grid builder of \<^verbatim>\<open>parseCells\<close>, the address formatting functions, and the page loop
  of \<^verbatim>\<open>parsePdf\<close>.

  JavaScript numbers are modelled as exact reals (rounding, NaN and infinities of IEEE
  doubles are outside the model, except where an out-of-range array read would produce
  NaN, which is modelled explicitly). Strings are modelled as \<^typ>\<open>string\<close>; case mapping
  and the whitespace class act on ASCII characters.
\<close>

subsection \<open>Data model\<close>

record rectangle =
  x :: real
  y :: real
  width :: real
  height :: real

text \<open>A text element \<^verbatim>\<open>{ text, x, y, width, height }\<close>.\<close>

record element = rectangle +
  "text" :: string

text \<open>A cell \<^verbatim>\<open>{ elements, x, y, width, height }\<close>.\<close>

record cell = rectangle +
  elements :: "element list"

subsection \<open>Geometry helpers\<close>

definition intersect :: "'a rectangle_scheme \<Rightarrow> 'b rectangle_scheme \<Rightarrow> rectangle" where
  "intersect rectangle1 rectangle2 =
     (let x1 = max (x rectangle1) (x rectangle2);
          y1 = max (y rectangle1) (y rectangle2);
          x2 = min (x rectangle1 + width rectangle1) (x rectangle2 + width rectangle2);
          y2 = min (y rectangle1 + height rectangle1) (y rectangle2 + height rectangle2)
      in if x2 \<ge> x1 \<and> y2 \<ge> y1
         then \<lparr>x = x1, y = y1, width = x2 - x1, height = y2 - y1\<rparr>
         else \<lparr>x = 0, y = 0, width = 0, height = 0\<rparr>)"

definition getArea :: "'a rectangle_scheme \<Rightarrow> real" where
  "getArea r = width r * height r"

definition getPercentageOfElementInCell :: "element \<Rightarrow> cell \<Rightarrow> real" where
  "getPercentageOfElementInCell e c =
     (let elementArea = getArea e;
          intersectionArea = getArea (intersect c e)
      in if elementArea = 0 then 0 else (intersectionArea * 100) / elementArea)"

text \<open>
  \<^verbatim>\<open>getHorizontalOverlapPercentage\<close>: either argument may be \<^verbatim>\<open>undefined\<close>, which is
  \<^const>\<open>None\<close> here.
\<close>

definition getHorizontalOverlapPercentage ::
  "'a rectangle_scheme option \<Rightarrow> 'b rectangle_scheme option \<Rightarrow> real" where
  "getHorizontalOverlapPercentage rectangle1 rectangle2 =
     (case (rectangle1, rectangle2) of
        (Some r1, Some r2) \<Rightarrow>
          (let startX1 = x r1;
               endX1 = x r1 + width r1;
               startX2 = x r2;
               endX2 = x r2 + width r2
           in if startX1 \<ge> endX2 \<or> endX1 \<le> startX2 \<or> width r1 = 0 \<or> width r2 = 0 then 0
              else let intersectionWidth = min endX1 endX2 - max startX1 startX2;
                       unionWidth = max endX1 endX2 - min startX1 startX2
                   in (intersectionWidth * 100) / unionWidth)
      | _ \<Rightarrow> 0)"

subsection \<open>Array sorting\<close>

text \<open>
  \<^verbatim>\<open>Array.prototype.sort(comparer)\<close> is modelled as a stable insertion sort driven by
  the comparer: an item moves behind another exactly when the comparer is positive.
\<close>

fun insertBy :: "('a \<Rightarrow> 'a \<Rightarrow> int) \<Rightarrow> 'a \<Rightarrow> 'a list \<Rightarrow> 'a list" where
  "insertBy comparer a [] = [a]"
| "insertBy comparer a (b # bs) =
     (if comparer a b > 0 then b # insertBy comparer a bs else a # b # bs)"

definition jsSort :: "('a \<Rightarrow> 'a \<Rightarrow> int) \<Rightarrow> 'a list \<Rightarrow> 'a list" where
  "jsSort comparer items = foldr (insertBy comparer) items []"

subsection \<open>Vector line extractor (first half of \<^verbatim>\<open>parseCells\<close>)\<close>

text \<open>
  A transform is the six-number array of pdf.js. \<^verbatim>\<open>pdfjs.Util.transform\<close> and
  \<^verbatim>\<open>pdfjs.Util.applyTransform\<close> are library functions; they are written out here as
  the library defines them.
\<close>

type_synonym matrix = "real \<times> real \<times> real \<times> real \<times> real \<times> real"

fun util_transform :: "matrix \<Rightarrow> matrix \<Rightarrow> matrix" where
  "util_transform (a1, b1, c1, d1, e1, f1) (a2, b2, c2, d2, e2, f2) =
     (a1 * a2 + c1 * b2, b1 * a2 + d1 * b2,
      a1 * c2 + c1 * d2, b1 * c2 + d1 * d2,
      a1 * e2 + c1 * f2 + e1, b1 * e2 + d1 * f2 + f1)"

fun applyTransform :: "real \<times> real \<Rightarrow> matrix \<Rightarrow> real \<times> real" where
  "applyTransform (px, py) (a, b, c, d, e, f) = (px * a + py * c + e, px * b + py * d + f)"

text \<open>
  The operators of a page: \<^verbatim>\<open>fnArray[index]\<close> together with \<^verbatim>\<open>argsArray[index]\<close>.
  A path construction carries its sub-operations and a flat argument buffer.
\<close>

datatype pathop = OPS_moveTo | OPS_lineTo | OPS_rectangle | OPS_otherPathOp

datatype operator =
    OPS_restore
  | OPS_save
  | OPS_transform matrix
  | OPS_constructPath "pathop list" "real list"
  | OPS_fill
  | OPS_eoFill
  | OPS_other

datatype error = TypeError

text \<open>
  \<^verbatim>\<open>previousRectangle\<close>: undefined, a rectangle, or a rectangle computed from an argument
  read past the end of the buffer. Such a read gives \<^verbatim>\<open>undefined\<close>, every coordinate of
  the rectangle becomes NaN, and no comparison of the classification holds for it.
\<close>

datatype pending = NoRectangle | NaNRectangle | Pending rectangle

text \<open>
  One sub-operation of \<^verbatim>\<open>constructPath\<close>. The current transform is \<^const>\<open>None\<close> after a
  \<^verbatim>\<open>pop()\<close> on an empty stack; applying it raises a TypeError.
\<close>

fun pathStep ::
  "matrix option \<Rightarrow> real list \<Rightarrow> pathop \<Rightarrow> nat \<times> pending \<Rightarrow> error + (nat \<times> pending)" where
  "pathStep transform args OPS_moveTo (argumentIndex, previousRectangle) =
     Inr (argumentIndex + 2, previousRectangle)"
| "pathStep transform args OPS_lineTo (argumentIndex, previousRectangle) =
     Inr (argumentIndex + 2, previousRectangle)"
| "pathStep transform args OPS_otherPathOp (argumentIndex, previousRectangle) =
     Inr (argumentIndex, previousRectangle)"
| "pathStep transform args OPS_rectangle (argumentIndex, previousRectangle) =
     (case transform of
        None \<Rightarrow> Inl TypeError
      | Some m \<Rightarrow>
          if argumentIndex + 3 < length args then
            (let x1 = args ! argumentIndex;
                 y1 = args ! (argumentIndex + 1);
                 w = args ! (argumentIndex + 2);
                 h = args ! (argumentIndex + 3);
                 x2 = x1 + w;
                 y2 = y1 + h;
                 (x1', y1') = applyTransform (x1, y1) m;
                 (x2', y2') = applyTransform (x2, y2) m
             in Inr (argumentIndex + 4,
                     Pending \<lparr>x = x1', y = y1', width = x2' - x1', height = y2' - y1'\<rparr>))
          else Inr (argumentIndex + 4, NaNRectangle))"

fun pathLoop ::
  "matrix option \<Rightarrow> real list \<Rightarrow> pathop list \<Rightarrow> nat \<times> pending \<Rightarrow> error + (nat \<times> pending)" where
  "pathLoop transform args [] st = Inr st"
| "pathLoop transform args (operation # operations) st =
     (case pathStep transform args operation st of
        Inl e \<Rightarrow> Inl e
      | Inr st' \<Rightarrow> pathLoop transform args operations st')"

record extractor =
  lines :: "rectangle list"
  previousRectangle :: pending
  transformStack :: "matrix option list"
  transform :: "matrix option"

text \<open>
  One iteration of the loop over the operators. The head of \<^const>\<open>transformStack\<close> is the
  top of the stack. A committed rectangle whose coordinates are NaN is never classified
  as a line, so it is not kept in \<^const>\<open>lines\<close>.
\<close>

fun operatorStep :: "extractor \<Rightarrow> operator \<Rightarrow> error + extractor" where
  "operatorStep s OPS_restore =
     (case transformStack s of
        [] \<Rightarrow> Inr (s\<lparr>transform := None\<rparr>)
      | t # ts \<Rightarrow> Inr (s\<lparr>transform := t, transformStack := ts\<rparr>))"
| "operatorStep s OPS_save = Inr (s\<lparr>transformStack := transform s # transformStack s\<rparr>)"
| "operatorStep s (OPS_transform argsArray) =
     (case transform s of
        None \<Rightarrow> Inl TypeError
      | Some m \<Rightarrow> Inr (s\<lparr>transform := Some (util_transform m argsArray)\<rparr>))"
| "operatorStep s (OPS_constructPath operations args) =
     (case pathLoop (transform s) args operations (0, previousRectangle s) of
        Inl e \<Rightarrow> Inl e
      | Inr (argumentIndex, r) \<Rightarrow> Inr (s\<lparr>previousRectangle := r\<rparr>))"
| "operatorStep s OPS_fill =
     (case previousRectangle s of
        NoRectangle \<Rightarrow> Inr s
      | NaNRectangle \<Rightarrow> Inr (s\<lparr>previousRectangle := NoRectangle\<rparr>)
      | Pending r \<Rightarrow> Inr (s\<lparr>lines := lines s @ [r], previousRectangle := NoRectangle\<rparr>))"
| "operatorStep s OPS_eoFill =
     (case previousRectangle s of
        NoRectangle \<Rightarrow> Inr s
      | NaNRectangle \<Rightarrow> Inr (s\<lparr>previousRectangle := NoRectangle\<rparr>)
      | Pending r \<Rightarrow> Inr (s\<lparr>lines := lines s @ [r], previousRectangle := NoRectangle\<rparr>))"
| "operatorStep s OPS_other = Inr s"

fun operatorLoop :: "extractor \<Rightarrow> operator list \<Rightarrow> error + extractor" where
  "operatorLoop s [] = Inr s"
| "operatorLoop s (operator # operators) =
     (case operatorStep s operator of
        Inl e \<Rightarrow> Inl e
      | Inr s' \<Rightarrow> operatorLoop s' operators)"

definition initialExtractor :: extractor where
  "initialExtractor =
     \<lparr>lines = [], previousRectangle = NoRectangle,
      transformStack = [Some (1, 0, 0, 1, 0, 0)], transform = Some (1, 0, 0, 1, 0, 0)\<rparr>"

definition extractLines :: "operator list \<Rightarrow> error + rectangle list" where
  "extractLines operators =
     (case operatorLoop initialExtractor operators of
        Inl e \<Rightarrow> Inl e
      | Inr s \<Rightarrow> Inr (lines s))"

subsection \<open>Line classification and grid builder (second half of \<^verbatim>\<open>parseCells\<close>)\<close>

definition isHorizontalLine :: "rectangle \<Rightarrow> bool" where
  "isHorizontalLine line \<longleftrightarrow> height line \<le> 2 \<and> width line \<ge> 200"

definition isVerticalLine :: "rectangle \<Rightarrow> bool" where
  "isVerticalLine line \<longleftrightarrow> \<not> isHorizontalLine line \<and> width line \<le> 2 \<and> height line \<ge> 10"

definition verticalLineComparer :: "rectangle \<Rightarrow> rectangle \<Rightarrow> int" where
  "verticalLineComparer a b = (if x a > x b then 1 else if x a < x b then -1 else 0)"

definition horizontalLineComparer :: "rectangle \<Rightarrow> rectangle \<Rightarrow> int" where
  "horizontalLineComparer a b = (if y a > y b then 1 else if y a < y b then -1 else 0)"

definition horizontalLinesOf :: "rectangle list \<Rightarrow> rectangle list" where
  "horizontalLinesOf ls = jsSort horizontalLineComparer (filter isHorizontalLine ls)"

definition verticalLinesOf :: "rectangle list \<Rightarrow> rectangle list" where
  "verticalLinesOf ls = jsSort verticalLineComparer (filter isVerticalLine ls)"

definition newCell :: "rectangle \<Rightarrow> rectangle \<Rightarrow> rectangle \<Rightarrow> rectangle \<Rightarrow> cell" where
  "newCell horizontalLine nextHorizontalLine verticalLine nextVerticalLine =
     \<lparr>x = x verticalLine, y = y horizontalLine,
      width = x nextVerticalLine - x verticalLine,
      height = y nextHorizontalLine - y horizontalLine,
      elements = []\<rparr>"

text \<open>
  The two nested loops over the sorted lines. The bounds \<^verbatim>\<open>length - 1\<close> are \<open>-1\<close> for an
  empty array in the source, where the loop body never runs; the truncating subtraction
  of \<^typ>\<open>nat\<close> gives the same empty range.
\<close>

definition constructCells :: "rectangle list \<Rightarrow> rectangle list \<Rightarrow> cell list" where
  "constructCells horizontalLines verticalLines =
     concat (map (\<lambda>horizontalLineIndex.
        map (\<lambda>verticalLineIndex.
               newCell (horizontalLines ! horizontalLineIndex)
                       (horizontalLines ! (horizontalLineIndex + 1))
                       (verticalLines ! verticalLineIndex)
                       (verticalLines ! (verticalLineIndex + 1)))
            [0 ..< length verticalLines - 1])
        [0 ..< length horizontalLines - 1])"

definition cellsOfLines :: "rectangle list \<Rightarrow> cell list" where
  "cellsOfLines ls = constructCells (horizontalLinesOf ls) (verticalLinesOf ls)"

definition parseCells :: "operator list \<Rightarrow> error + cell list" where
  "parseCells operators =
     (case extractLines operators of
        Inl e \<Rightarrow> Inl e
      | Inr ls \<Rightarrow> Inr (cellsOfLines ls))"

subsection \<open>Cell-text binder (the owner loop of \<^verbatim>\<open>parsePdf\<close>)\<close>

text \<open>
  \<^verbatim>\<open>cells.find(cell => getPercentageOfElementInCell(element, cell) > 50)\<close>, as the index
  of the cell found.
\<close>

fun ownerIndex :: "element \<Rightarrow> cell list \<Rightarrow> nat option" where
  "ownerIndex e [] = None"
| "ownerIndex e (c # cs) =
     (if getPercentageOfElementInCell e c > 50 then Some 0
      else map_option Suc (ownerIndex e cs))"

definition pushElement :: "element \<Rightarrow> cell \<Rightarrow> cell" where
  "pushElement e c = c\<lparr>elements := elements c @ [e]\<rparr>"

definition allocateElement :: "cell list \<Rightarrow> element \<Rightarrow> cell list" where
  "allocateElement cells e =
     (case ownerIndex e cells of
        None \<Rightarrow> cells
      | Some i \<Rightarrow> cells[i := pushElement e (cells ! i)])"

definition allocateElements :: "cell list \<Rightarrow> element list \<Rightarrow> cell list" where
  "allocateElements cells es = foldl allocateElement cells es"

subsection \<open>String helpers\<close>

text \<open>The whitespace class of \<^verbatim>\<open>\s\<close> and \<^verbatim>\<open>trim()\<close>, on ASCII.\<close>

definition isWhitespace :: "char \<Rightarrow> bool" where
  "isWhitespace c \<longleftrightarrow> c \<in> set [CHR '' '', CHR 0x09, CHR 0x0A, CHR 0x0B, CHR 0x0C, CHR 0x0D]"

definition trim :: "string \<Rightarrow> string" where
  "trim s = rev (dropWhile isWhitespace (rev (dropWhile isWhitespace s)))"

definition toUpperCase :: "string \<Rightarrow> string" where
  "toUpperCase s =
     map (\<lambda>c. case map_of (zip ''abcdefghijklmnopqrstuvwxyz'' ''ABCDEFGHIJKLMNOPQRSTUVWXYZ'') c of
                 None \<Rightarrow> c | Some u \<Rightarrow> u) s"

definition toLowerCase :: "string \<Rightarrow> string" where
  "toLowerCase s =
     map (\<lambda>c. case map_of (zip ''ABCDEFGHIJKLMNOPQRSTUVWXYZ'' ''abcdefghijklmnopqrstuvwxyz'') c of
                 None \<Rightarrow> c | Some l \<Rightarrow> l) s"

text \<open>\<^verbatim>\<open>s.split(separator)\<close> for a one-character separator; the result is never empty.\<close>

fun split :: "char \<Rightarrow> string \<Rightarrow> string list" where
  "split separator [] = [[]]"
| "split separator (c # cs) =
     (if c = separator then [] # split separator cs
      else (case split separator cs of
              [] \<Rightarrow> [[c]]
            | t # ts \<Rightarrow> (c # t) # ts))"

fun join :: "string \<Rightarrow> string list \<Rightarrow> string" where
  "join separator [] = []"
| "join separator [t] = t"
| "join separator (t # ts) = t @ separator @ join separator ts"

text \<open>\<^verbatim>\<open>s.replace(/\s/g, "")\<close>\<close>

definition removeWhitespace :: "string \<Rightarrow> string" where
  "removeWhitespace s = filter (\<lambda>c. \<not> isWhitespace c) s"

text \<open>\<^verbatim>\<open>s.replace(/\s\s+/g, " ")\<close>: a run of two or more whitespace characters becomes one space.\<close>

function collapseWhitespace :: "string \<Rightarrow> string" where
  "collapseWhitespace [] = []"
| "collapseWhitespace [c] = [c]"
| "collapseWhitespace (c # d # cs) =
     (if isWhitespace c \<and> isWhitespace d
      then CHR '' '' # collapseWhitespace (dropWhile isWhitespace cs)
      else c # collapseWhitespace (d # cs))"
  by pat_completeness auto
termination
  by (relation "measure length") (auto simp: less_Suc_eq_le intro: le_trans [OF length_dropWhile_le])

text \<open>\<^verbatim>\<open>s.replace(/pattern/g, replacement)\<close> for a literal, non-empty pattern.\<close>

function replaceAll :: "string \<Rightarrow> string \<Rightarrow> string \<Rightarrow> string" where
  "replaceAll pattern replacement [] = []"
| "replaceAll pattern replacement (c # cs) =
     (if pattern \<noteq> [] \<and> prefix pattern (c # cs)
      then replacement @ replaceAll pattern replacement (drop (length pattern) (c # cs))
      else c # replaceAll pattern replacement cs)"
  by pat_completeness auto
termination
  by (relation "measure (\<lambda>(pattern, replacement, s). length s)") auto

text \<open>\<^verbatim>\<open>s.lastIndexOf(c)\<close>, with \<^const>\<open>None\<close> for \<open>-1\<close>.\<close>

fun lastIndexOf :: "char \<Rightarrow> string \<Rightarrow> nat option" where
  "lastIndexOf ch [] = None"
| "lastIndexOf ch (c # cs) =
     (case lastIndexOf ch cs of
        Some i \<Rightarrow> Some (Suc i)
      | None \<Rightarrow> if c = ch then Some 0 else None)"



subsection \<open>Regular expressions\<close>

text \<open>
  A regular expression is a value; \<^verbatim>\<open>pattern.test(s)\<close> for a pattern without anchors
  holds when some substring of \<open>s\<close> matches. Matching is by derivatives.
\<close>

datatype rexp =
    Zero
  | One
  | Atom "char \<Rightarrow> bool"
  | Alt rexp rexp
  | Times rexp rexp
  | Star rexp

fun nullable :: "rexp \<Rightarrow> bool" where
  "nullable Zero = False"
| "nullable One = True"
| "nullable (Atom p) = False"
| "nullable (Alt r1 r2) = (nullable r1 \<or> nullable r2)"
| "nullable (Times r1 r2) = (nullable r1 \<and> nullable r2)"
| "nullable (Star r) = True"

fun deriv :: "char \<Rightarrow> rexp \<Rightarrow> rexp" where
  "deriv c Zero = Zero"
| "deriv c One = Zero"
| "deriv c (Atom p) = (if p c then One else Zero)"
| "deriv c (Alt r1 r2) = Alt (deriv c r1) (deriv c r2)"
| "deriv c (Times r1 r2) =
     (if nullable r1 then Alt (Times (deriv c r1) r2) (deriv c r2) else Times (deriv c r1) r2)"
| "deriv c (Star r) = Times (deriv c r) (Star r)"

fun matches :: "rexp \<Rightarrow> string \<Rightarrow> bool" where
  "matches r [] = nullable r"
| "matches r (c # cs) = matches (deriv c r) cs"

definition regexTest :: "rexp \<Rightarrow> string \<Rightarrow> bool" where
  "regexTest r s = list_ex (\<lambda>t. list_ex (matches r) (prefixes t)) (suffixes s)"

definition oneOrMore :: "rexp \<Rightarrow> rexp" where
  "oneOrMore r = Times r (Star r)"

definition isDigit :: "char \<Rightarrow> bool" where
  "isDigit c \<longleftrightarrow> c \<in> set ''0123456789''"

text \<open>\<^verbatim>\<open>/[0-9]+\/[0-9]+\/[0-9]+/\<close>\<close>

definition applicationNumberPattern :: rexp where
  "applicationNumberPattern =
     Times (oneOrMore (Atom isDigit))
       (Times (Atom (\<lambda>c. c = CHR ''/''))
          (Times (oneOrMore (Atom isDigit))
             (Times (Atom (\<lambda>c. c = CHR ''/'')) (oneOrMore (Atom isDigit)))))"

text \<open>The language of a regular expression, against which \<^const>\<open>matches\<close> is verified.\<close>

inductive_set star :: "string set \<Rightarrow> string set" for A :: "string set" where
  star_empty: "[] \<in> star A"
| star_step: "u \<in> A \<Longrightarrow> v \<in> star A \<Longrightarrow> u @ v \<in> star A"

fun lang :: "rexp \<Rightarrow> string set" where
  "lang Zero = {}"
| "lang One = {[]}"
| "lang (Atom p) = {[c] | c. p c}"
| "lang (Alt r1 r2) = lang r1 \<union> lang r2"
| "lang (Times r1 r2) = {u @ v | u v. u \<in> lang r1 \<and> v \<in> lang r2}"
| "lang (Star r) = star (lang r)"

subsection \<open>Address information and external libraries\<close>

text \<open>
  The global objects \<^verbatim>\<open>StreetNames\<close>, \<^verbatim>\<open>StreetSuffixes\<close> and \<^verbatim>\<open>SuburbNames\<close>, as association
  lists in insertion order: \<^verbatim>\<open>Object.keys(o)\<close> is \<open>map fst o\<close> and \<^verbatim>\<open>o[key]\<close> is
  \<open>map_of o key\<close>. Every key looked up in the street objects is upper case, so no
  inherited property of a JavaScript object is ever found.
\<close>

record gazetteer =
  StreetNames :: "(string \<times> string list) list"
  StreetSuffixes :: "(string \<times> string) list"
  SuburbNames :: "(string \<times> string) list"

text \<open>
  The packages didyoumean2 and moment are not part of the repository. The functions that
  call them take them as parameters:
  \<^item> \<open>didyoumean input matchList threshold\<close> stands for the call of didyoumean2 with the
    options of the source (case-insensitive, first closest match, edit-distance
    threshold, spaces trimmed); \<^const>\<open>None\<close> is \<^verbatim>\<open>null\<close>;
  \<^item> \<open>moment s\<close> stands for \<^verbatim>\<open>moment(s, "D/MM/YYYY", true)\<close> followed by
    \<^verbatim>\<open>format("YYYY-MM-DD")\<close>, and is \<^const>\<open>None\<close> when the parsed date is not valid;
  \<^item> \<open>today\<close> stands for \<^verbatim>\<open>moment().format("YYYY-MM-DD")\<close>.
\<close>

record libraries =
  didyoumean :: "string \<Rightarrow> string list \<Rightarrow> nat \<Rightarrow> string option"
  moment :: "string \<Rightarrow> string option"
  today :: string

text \<open>
  Modelled from the spec: the fuzzy matcher, used where a concrete matcher is evaluated.
  The spec describes it as an edit-distance match against the known names with a fixed
  threshold, returning no candidate when none is within the threshold; with the options
  of the source the input and the candidates are compared after trimming, collapsing
  whitespace to single spaces and lower-casing, and the first candidate at the least
  distance is returned.
\<close>

fun levenshteinRow :: "char \<Rightarrow> string \<Rightarrow> nat list \<Rightarrow> nat \<Rightarrow> nat list" where
  "levenshteinRow c (d # ds) (northwest # north # previousRow) west =
     (let v = min (min (north + 1) (west + 1)) (northwest + (if c = d then 0 else 1))
      in v # levenshteinRow c ds (north # previousRow) v)"
| "levenshteinRow c ds previousRow west = []"

definition levenshtein :: "string \<Rightarrow> string \<Rightarrow> nat" where
  "levenshtein s t =
     last (foldl (\<lambda>row c. (case row of
                              [] \<Rightarrow> []
                            | first # rest \<Rightarrow> (first + 1) # levenshteinRow c t row (first + 1)))
                 [0 ..< length t + 1] s)"

function collapseSpaces :: "string \<Rightarrow> string" where
  "collapseSpaces [] = []"
| "collapseSpaces (c # cs) =
     (if isWhitespace c then CHR '' '' # collapseSpaces (dropWhile isWhitespace cs)
      else c # collapseSpaces cs)"
  by pat_completeness auto
termination
  by (relation "measure length") (auto simp: less_Suc_eq_le intro: length_dropWhile_le)

definition normalizeString :: "string \<Rightarrow> string" where
  "normalizeString s = toLowerCase (collapseSpaces (trim s))"

definition editDistanceMatcher :: "string \<Rightarrow> string list \<Rightarrow> nat \<Rightarrow> string option" where
  "editDistanceMatcher input matchList threshold =
     (let scores = map (\<lambda>candidate. levenshtein (normalizeString input) (normalizeString candidate))
                       matchList
      in case scores of
           [] \<Rightarrow> None
         | score # rest \<Rightarrow>
             (let least = fold min rest score
              in if least \<le> threshold
                 then map_option fst (find (\<lambda>(candidate, score). score = least) (zip matchList scores))
                 else None))"

text \<open>
  Modelled from the spec: the strict day/month/year parser, used where a concrete
  parser is evaluated. One or two digits for the day, two for the month, four for the
  year, separated by slashes, naming a day of the calendar.
\<close>

definition digitsToNat :: "string \<Rightarrow> nat" where
  "digitsToNat s = foldl (\<lambda>n c. 10 * n + (case map_of (zip ''0123456789'' [0 ..< 10]) c of
                                             None \<Rightarrow> 0 | Some d \<Rightarrow> d)) 0 s"

definition daysInMonth :: "nat \<Rightarrow> nat \<Rightarrow> nat" where
  "daysInMonth yr m =
     (if m = 2 then (if yr mod 4 = 0 \<and> (yr mod 100 \<noteq> 0 \<or> yr mod 400 = 0) then 29 else 28)
      else if m \<in> set [4, 6, 9, 11] then 30 else 31)"

definition strictDayMonthYear :: "string \<Rightarrow> string option" where
  "strictDayMonthYear s =
     (case split (CHR ''/'') s of
        [d, m, yr] \<Rightarrow>
          if (length d = 1 \<or> length d = 2) \<and> length m = 2 \<and> length yr = 4 \<and>
             list_all isDigit (d @ m @ yr) \<and>
             1 \<le> digitsToNat m \<and> digitsToNat m \<le> 12 \<and>
             1 \<le> digitsToNat d \<and> digitsToNat d \<le> daysInMonth (digitsToNat yr) (digitsToNat m)
          then Some (yr @ ''-'' @ m @ ''-'' @ (if length d = 1 then ''0'' @ d else d))
          else None
      | _ \<Rightarrow> None)"

subsection \<open>Address formatting\<close>

text \<open>\<^verbatim>\<open>tokens.slice(-index)\<close>: the last \<open>index\<close> tokens, or all of them if there are fewer.\<close>

definition sliceFromEnd :: "nat \<Rightarrow> 'a list \<Rightarrow> 'a list" where
  "sliceFromEnd index tokens = drop (length tokens - index) tokens"

text \<open>The second loop of \<^verbatim>\<open>formatStreetName\<close>, over the remaining values of \<open>index\<close>.\<close>

fun fuzzyStreetMatch :: "libraries \<Rightarrow> gazetteer \<Rightarrow> string list \<Rightarrow> nat list \<Rightarrow> string option" where
  "fuzzyStreetMatch lib gaz tokens [] = None"
| "fuzzyStreetMatch lib gaz tokens (index # indexes) =
     (let threshold = 7 - index
      in case didyoumean lib (join '' '' (sliceFromEnd index tokens)) (map fst (StreetNames gaz))
                threshold of
           Some streetNameMatch \<Rightarrow>
             Some (trim (join '' '' (take (length tokens - index) tokens) @ '' '' @ streetNameMatch))
         | None \<Rightarrow> fuzzyStreetMatch lib gaz tokens indexes)"

text \<open>
  \<^verbatim>\<open>formatStreetName\<close>; the argument is \<^const>\<open>None\<close> for \<^verbatim>\<open>undefined\<close>. The array \<open>tokens\<close>
  comes from \<^verbatim>\<open>split\<close> and is never empty, so \<^verbatim>\<open>pop()\<close> always returns its last token.
\<close>

definition formatStreetName :: "libraries \<Rightarrow> gazetteer \<Rightarrow> string option \<Rightarrow> string option" where
  "formatStreetName lib gaz textOption =
     (case textOption of
        None \<Rightarrow> None
      | Some txt \<Rightarrow>
          (let tokens0 = split (CHR '' '') (toUpperCase (trim txt));
               token = last tokens0;
               tokens = butlast tokens0 @
                 [case map_of (StreetSuffixes gaz) token of None \<Rightarrow> token | Some streetSuffix \<Rightarrow> streetSuffix]
           in if list_ex (\<lambda>index. map_of (StreetNames gaz) (join '' '' (sliceFromEnd index tokens)) \<noteq> None)
                   [6, 5, 4, 3, 2]
              then Some (join '' '' tokens)
              else (case fuzzyStreetMatch lib gaz tokens [6, 5, 4, 3, 2] of
                      Some street \<Rightarrow> Some street
                    | None \<Rightarrow> Some txt)))"

definition specialCases :: "string \<Rightarrow> string" where
  "specialCases s =
     replaceAll '' TCE WEST'' '' TERRACE WEST''
       (replaceAll '' TCE EAST'' '' TERRACE EAST''
          (replaceAll '' TCE STH'' '' TERRACE SOUTH''
             (replaceAll '' TCE NTH'' '' TERRACE NORTH'' s)))"

text \<open>String concatenation with a value that may be \<^verbatim>\<open>undefined\<close>.\<close>

definition orUndefined :: "string option \<Rightarrow> string" where
  "orUndefined v = (case v of None \<Rightarrow> ''undefined'' | Some s \<Rightarrow> s)"

definition formatAddress :: "libraries \<Rightarrow> gazetteer \<Rightarrow> string \<Rightarrow> string" where
  "formatAddress lib gaz address0 =
     (let addr = specialCases (trim address0)
      in case lastIndexOf (CHR '','') addr of
           None \<Rightarrow> addr
         | Some commaIndex \<Rightarrow>
             (let streetName = take commaIndex addr;
                  suburbName = drop (commaIndex + 1) addr
              in case didyoumean lib suburbName (map fst (SuburbNames gaz)) 2 of
                   None \<Rightarrow> addr
                 | Some suburb \<Rightarrow>
                     orUndefined (formatStreetName lib gaz (Some streetName)) @ '', '' @
                     orUndefined (map_of (SuburbNames gaz) suburb)))"

subsection \<open>Text elements (\<^verbatim>\<open>parseElements\<close>)\<close>



subsection \<open>Table assembly (the page loop of \<^verbatim>\<open>parsePdf\<close>)\<close>












text \<open>
  \<^verbatim>\<open>cells.find(cell => cell.elements.some(element =>
  element.text.toLowerCase().replace(/\s/g, "") === label))\<close>
\<close>

definition findHeadingCell :: "string \<Rightarrow> cell list \<Rightarrow> cell option" where
  "findHeadingCell label cells =
     find (\<lambda>c. list_ex (\<lambda>e. removeWhitespace (toLowerCase (text e)) = label) (elements c)) cells"

record headings =
  applicationNumberHeadingCell :: "cell option"
  receivedDateHeadingCell :: "cell option"
  legalDescriptionHeadingCell :: "cell option"
  streetNameHeadingCell :: "cell option"
  suburbNameHeadingCell :: "cell option"
  descriptionHeadingCell :: "cell option"


subsection \<open>Record builder (the row loop of \<^verbatim>\<open>parsePdf\<close>)\<close>

record developmentApplication =
  applicationNumber :: string
  address :: string
  description :: string
  informationUrl :: string
  commentUrl :: string
  scrapeDate :: string
  receivedDate :: string
  legalDescription :: string

definition CommentUrl :: string where
  "CommentUrl = ''mailto:mail@dclep.sa.gov.au''"

text \<open>\<^verbatim>\<open>row.find(cell => getHorizontalOverlapPercentage(cell, headingCell) > 90)\<close>\<close>

definition findCell :: "cell list \<Rightarrow> cell option \<Rightarrow> cell option" where
  "findCell row headingCell =
     find (\<lambda>c. getHorizontalOverlapPercentage (Some c) headingCell > 90) row"

text \<open>\<^verbatim>\<open>cell.elements.map(element => element.text).join("").trim()\<close>\<close>

definition applicationNumberText :: "cell \<Rightarrow> string" where
  "applicationNumberText c = trim (join [] (map text (elements c)))"

text \<open>\<^verbatim>\<open>cell.elements.map(element => element.text).join(" ").replace(/\s\s+/g, " ").trim()\<close>\<close>

definition cellText :: "cell \<Rightarrow> string" where
  "cellText c = trim (collapseWhitespace (join '' '' (map text (elements c))))"

text \<open>
  One iteration of the row loop: the application pushed, if any, and the lines logged.
\<close>

definition processRow ::
  "libraries \<Rightarrow> gazetteer \<Rightarrow> string \<Rightarrow> headings \<Rightarrow> cell list \<Rightarrow>
   developmentApplication option \<times> string list" where
  "processRow lib gaz url h row =
     (let applicationNumberCell = findCell row (applicationNumberHeadingCell h);
          receivedDateCell = findCell row (receivedDateHeadingCell h);
          legalDescriptionCell = findCell row (legalDescriptionHeadingCell h);
          streetNameCell = findCell row (streetNameHeadingCell h);
          suburbNameCell = findCell row (suburbNameHeadingCell h);
          descriptionCell = findCell row (descriptionHeadingCell h)
      in case applicationNumberCell of
           None \<Rightarrow> (None, [])
         | Some numberCell \<Rightarrow>
             (let number = applicationNumberText numberCell;
                  found = ''Found development application '' @ number @ ''.''
              in if \<not> regexTest applicationNumberPattern number then (None, [])
                 else case streetNameCell of
                   None \<Rightarrow> (None, [found,
                     ''Ignoring the development application because it has no street name cell.''])
                 | Some streetCell \<Rightarrow>
                 (case suburbNameCell of
                   None \<Rightarrow> (None, [found,
                     ''Ignoring the development application because it has no suburb name cell.''])
                 | Some suburbCell \<Rightarrow>
                     (let streetName = cellText streetCell;
                          suburbName = cellText suburbCell
                      in if streetName = [] then (None, [found,
                           ''Ignoring the development application because it has no street name.''])
                         else if suburbName = [] then (None, [found,
                           ''Ignoring the development application because it has no suburb name.''])
                         else
                           (let addr = formatAddress lib gaz (streetName @ '', '' @ suburbName)
                            in if addr = [] then (None, [found,
                                 ''Ignoring the development application because the address is blank.''])
                               else
                                 (let desc = (case descriptionCell of
                                                None \<Rightarrow> []
                                              | Some c \<Rightarrow> cellText c);
                                      received = (case receivedDateCell of
                                                    None \<Rightarrow> None
                                                  | Some c \<Rightarrow>
                                                      (case elements c of
                                                         [] \<Rightarrow> None
                                                       | e # es \<Rightarrow> moment lib (trim (text e))));
                                      legal = (case legalDescriptionCell of
                                                 None \<Rightarrow> []
                                               | Some c \<Rightarrow> cellText c)
                                  in (Some \<lparr>applicationNumber = number,
                                            address = addr,
                                            description =
                                              (if desc = [] then ''No Description Provided'' else desc),
                                            informationUrl = url,
                                            commentUrl = CommentUrl,
                                            scrapeDate = today lib,
                                            receivedDate =
                                              (case received of None \<Rightarrow> [] | Some d \<Rightarrow> d),
                                            legalDescription = legal\<rparr>,
                                      [found])))))))"










subsection \<open>Operator streams without reflection\<close>









subsection \<open>Rows that pass the checks of the record builder\<close>

text \<open>
  The checks a row passes before its address is formatted: an identifier cell whose text
  passes the pattern test, and a street cell and a suburb cell with non-empty text.
\<close>

definition acceptedRow :: "headings \<Rightarrow> cell list \<Rightarrow> bool" where
  "acceptedRow h row \<longleftrightarrow>
     (case findCell row (applicationNumberHeadingCell h) of
        None \<Rightarrow> False
      | Some c \<Rightarrow> regexTest applicationNumberPattern (applicationNumberText c)) \<and>
     (case findCell row (streetNameHeadingCell h) of
        None \<Rightarrow> False
      | Some c \<Rightarrow> cellText c \<noteq> []) \<and>
     (case findCell row (suburbNameHeadingCell h) of
        None \<Rightarrow> False
      | Some c \<Rightarrow> cellText c \<noteq> [])"

subsection \<open>A sample register\<close>

text \<open>
  Concrete data on which the functions are evaluated: a heading row with the columns
  \<open>D/A Number\<close>, \<open>Received\<close>, \<open>Street Name\<close> and \<open>Town\<close>, each 100 units wide, a data row
  below it, a small gazetteer, and the external libraries as modelled above.
\<close>

definition sampleCell :: "real \<Rightarrow> real \<Rightarrow> string list \<Rightarrow> cell" where
  "sampleCell cx cy texts =
     \<lparr>x = cx, y = cy, width = 100, height = 20,
      elements = map (\<lambda>s. \<lparr>x = cx + 5, y = cy + 5, width = 40, height = 8, text = s\<rparr>) texts\<rparr>"

definition sampleHeadings :: headings where
  "sampleHeadings =
     \<lparr>applicationNumberHeadingCell = Some (sampleCell 0 0 [''D/A Number'']),
      receivedDateHeadingCell = Some (sampleCell 100 0 [''Received'']),
      legalDescriptionHeadingCell = None,
      streetNameHeadingCell = Some (sampleCell 200 0 [''Street Name'']),
      suburbNameHeadingCell = Some (sampleCell 300 0 [''Town'']),
      descriptionHeadingCell = None\<rparr>"

definition sampleRow :: "string \<Rightarrow> string \<Rightarrow> string \<Rightarrow> string \<Rightarrow> cell list" where
  "sampleRow number received street suburb =
     [sampleCell 0 20 [number], sampleCell 100 20 [received],
      sampleCell 200 20 [street], sampleCell 300 20 [suburb]]"

definition sampleLibraries :: libraries where
  "sampleLibraries =
     \<lparr>didyoumean = editDistanceMatcher, moment = strictDayMonthYear, today = ''2019-02-27''\<rparr>"

definition sampleGazetteer :: gazetteer where
  "sampleGazetteer =
     \<lparr>StreetNames = [(''MAIN STREET'', [''CUMMINS'']), (''SMYTH ROAD'', [''COFFIN BAY''])],
      StreetSuffixes = [(''ST'', ''STREET''), (''RD'', ''ROAD'')],
      SuburbNames = [(''CUMMINS'', ''CUMMINS SA 5631'')]\<rparr>"



section \<open>Verified properties\<close>

subsection \<open>Sorting by a coordinate\<close>

lemma insertBy_horizontal: "insertBy horizontalLineComparer a bs = insort_key y a bs"
  by (induction bs) (auto simp: horizontalLineComparer_def)

lemma insertBy_vertical: "insertBy verticalLineComparer a bs = insort_key x a bs"
  by (induction bs) (auto simp: verticalLineComparer_def)

lemma jsSort_horizontal: "jsSort horizontalLineComparer ls = sort_key y ls"
  by (induction ls) (simp_all add: jsSort_def insertBy_horizontal)

lemma jsSort_vertical: "jsSort verticalLineComparer ls = sort_key x ls"
  by (induction ls) (simp_all add: jsSort_def insertBy_vertical)

subsection \<open>Grid builder\<close>

lemma length_concat_grid:
  "length (concat (map (\<lambda>i. map (f i) [0 ..< m]) [0 ..< n])) = n * m"
  by (induction n) simp_all

lemma nth_concat_grid:
  "i < n \<Longrightarrow> j < m \<Longrightarrow> concat (map (\<lambda>i. map (f i) [0 ..< m]) [0 ..< n]) ! (i * m + j) = f i j"
proof (induction n)
  case 0
  then show ?case by simp
next
  case (Suc n)
  show ?case
  proof (cases "i < n")
    case True
    then have "Suc i * m \<le> n * m"
      by (intro mult_le_mono1) simp
    with Suc.prems(2) have "i * m + j < n * m" by simp
    with True Suc show ?thesis
      by (simp add: nth_append length_concat_grid)
  next
    case False
    with Suc.prems have "i = n" by simp
    with Suc.prems show ?thesis
      by (simp add: nth_append length_concat_grid)
  qed
qed

lemma length_constructCells:
  "length (constructCells hs vs) = (length hs - 1) * (length vs - 1)"
  unfolding constructCells_def by (rule length_concat_grid)

lemma nth_constructCells:
  "i < length hs - 1 \<Longrightarrow> j < length vs - 1 \<Longrightarrow>
   constructCells hs vs ! (i * (length vs - 1) + j) =
     newCell (hs ! i) (hs ! (i + 1)) (vs ! j) (vs ! (j + 1))"
  unfolding constructCells_def by (rule nth_concat_grid)

text \<open>
  C4. The grid builder sorts the horizontal lines by \<open>y\<close> and the vertical lines by \<open>x\<close>
  and, for \<open>H\<close> horizontal and \<open>V\<close> vertical lines with \<open>H, V \<ge> 2\<close>, produces exactly
  \<open>(H - 1) * (V - 1)\<close> cells: the cell for the \<open>i\<close>-th pair of consecutive horizontal lines
  and the \<open>j\<close>-th pair of consecutive vertical lines spans from one line of each pair to
  the next. With fewer than two lines of either kind it produces no cell.
\<close>

theorem grid_builder_cells:
  "(let hs = horizontalLinesOf ls; vs = verticalLinesOf ls;
        H = length (filter isHorizontalLine ls); V = length (filter isVerticalLine ls);
        cells = cellsOfLines ls
    in mset hs = mset (filter isHorizontalLine ls) \<and> sorted (map y hs) \<and>
       mset vs = mset (filter isVerticalLine ls) \<and> sorted (map x vs) \<and>
       (2 \<le> H \<and> 2 \<le> V \<longrightarrow> length cells = (H - 1) * (V - 1)) \<and>
       (H < 2 \<or> V < 2 \<longrightarrow> cells = []) \<and>
       (\<forall>i j. i + 1 < H \<and> j + 1 < V \<longrightarrow>
          cells ! (i * (V - 1) + j) =
            \<lparr>x = x (vs ! j), y = y (hs ! i),
             width = x (vs ! (j + 1)) - x (vs ! j),
             height = y (hs ! (i + 1)) - y (hs ! i),
             elements = []\<rparr>))"
proof -
  define hs where "hs = horizontalLinesOf ls"
  define vs where "vs = verticalLinesOf ls"
  have hs: "hs = sort_key y (filter isHorizontalLine ls)"
    by (simp add: hs_def horizontalLinesOf_def jsSort_horizontal)
  have vs: "vs = sort_key x (filter isVerticalLine ls)"
    by (simp add: vs_def verticalLinesOf_def jsSort_vertical)
  have lh: "length hs = length (filter isHorizontalLine ls)" by (simp add: hs)
  have lv: "length vs = length (filter isVerticalLine ls)" by (simp add: vs)
  have len: "length (cellsOfLines ls) = (length hs - 1) * (length vs - 1)"
    by (simp add: cellsOfLines_def hs_def vs_def length_constructCells)
  have empty: "length hs < 2 \<or> length vs < 2 \<Longrightarrow> cellsOfLines ls = []"
  proof -
    assume "length hs < 2 \<or> length vs < 2"
    then have z: "(length hs - 1) * (length vs - 1) = 0" by auto
    have "length (cellsOfLines ls) = 0" unfolding len by (rule z)
    then show ?thesis by (simp only: length_0_conv)
  qed
  have nth: "i + 1 < length hs \<Longrightarrow> j + 1 < length vs \<Longrightarrow>
      cellsOfLines ls ! (i * (length vs - 1) + j) =
        \<lparr>x = x (vs ! j), y = y (hs ! i),
         width = x (vs ! (j + 1)) - x (vs ! j),
         height = y (hs ! (i + 1)) - y (hs ! i),
         elements = []\<rparr>" for i j
    using nth_constructCells [of i hs j vs]
    by (simp add: cellsOfLines_def hs_def vs_def newCell_def)
  show ?thesis
    unfolding Let_def hs_def [symmetric] vs_def [symmetric] lh [symmetric] lv [symmetric]
    using len empty nth by (simp add: hs vs)
qed


theorem grid_builder_cells_witness:
  "(2::nat) \<le> 3 \<and> (2::nat) \<le> 2 \<and>
   length (cellsOfLines
     [\<lparr>x = 0, y = 100, width = 300, height = 1\<rparr>,
      \<lparr>x = 300, y = 0, width = 1, height = 100\<rparr>,
      \<lparr>x = 0, y = 0, width = 300, height = 1\<rparr>,
      \<lparr>x = 0, y = 0, width = 1, height = 100\<rparr>,
      \<lparr>x = 0, y = 50, width = 300, height = 1\<rparr>]) = (3 - 1) * (2 - 1) \<and>
   cellsOfLines
     [\<lparr>x = 0, y = 100, width = 300, height = 1\<rparr>,
      \<lparr>x = 300, y = 0, width = 1, height = 100\<rparr>,
      \<lparr>x = 0, y = 0, width = 300, height = 1\<rparr>,
      \<lparr>x = 0, y = 0, width = 1, height = 100\<rparr>,
      \<lparr>x = 0, y = 50, width = 300, height = 1\<rparr>] ! (1 * (2 - 1) + 0) =
     \<lparr>x = 0, y = 50, width = 300, height = 50, elements = []\<rparr>"
  using grid_builder_cells
    [of "[\<lparr>x = 0, y = 100, width = 300, height = 1\<rparr>,
          \<lparr>x = 300, y = 0, width = 1, height = 100\<rparr>,
          \<lparr>x = 0, y = 0, width = 300, height = 1\<rparr>,
          \<lparr>x = 0, y = 0, width = 1, height = 100\<rparr>,
          \<lparr>x = 0, y = 50, width = 300, height = 1\<rparr>]"]
  by (simp add: Let_def isHorizontalLine_def isVerticalLine_def horizontalLinesOf_def
      verticalLinesOf_def jsSort_def horizontalLineComparer_def verticalLineComparer_def)


subsection \<open>Vector line extractor\<close>









text \<open>
  Two restores empty the stack and leave the current transform undefined; a rectangle
  constructed after them raises a TypeError, which ends \<^verbatim>\<open>parseCells\<close>.
\<close>

lemma unbalanced_restore_raises:
  "parseCells [OPS_restore, OPS_restore, OPS_constructPath [OPS_rectangle] [0, 0, 300, 1]]
     = Inl TypeError"
  by (simp add: parseCells_def extractLines_def initialExtractor_def)





subsection \<open>Cell-text binder\<close>

lemma ownerIndex_Some:
  "ownerIndex e cs = Some i \<Longrightarrow>
   i < length cs \<and> getPercentageOfElementInCell e (cs ! i) > 50 \<and>
   (\<forall>j<i. \<not> getPercentageOfElementInCell e (cs ! j) > 50)"
proof (induction cs arbitrary: i)
  case Nil
  then show ?case by simp
next
  case (Cons c cs)
  show ?case
  proof (cases "getPercentageOfElementInCell e c > 50")
    case True
    with Cons.prems show ?thesis by simp
  next
    case False
    with Cons.prems obtain k where k: "ownerIndex e cs = Some k" "i = Suc k" by auto
    from Cons.IH [OF k(1)] False k(2) show ?thesis
      by (auto simp: less_Suc_eq_0_disj)
  qed
qed

lemma ownerIndex_None:
  "ownerIndex e cs = None \<longleftrightarrow> (\<forall>c\<in>set cs. \<not> getPercentageOfElementInCell e c > 50)"
  by (induction cs) auto

lemma percentage_pushElement:
  "getPercentageOfElementInCell e (pushElement e' c) = getPercentageOfElementInCell e c"
  by (simp add: getPercentageOfElementInCell_def pushElement_def intersect_def getArea_def)

lemma ownerIndex_update:
  "i < length cs \<Longrightarrow> ownerIndex e (cs[i := pushElement e' (cs ! i)]) = ownerIndex e cs"
proof (induction cs arbitrary: i)
  case Nil
  then show ?case by simp
next
  case (Cons c cs)
  then show ?case by (cases i) (simp_all add: percentage_pushElement)
qed

lemma ownerIndex_allocateElement:
  "ownerIndex e (allocateElement cs e') = ownerIndex e cs"
  by (auto simp: allocateElement_def ownerIndex_update dest: ownerIndex_Some split: option.splits)

lemma length_allocateElement: "length (allocateElement cs e) = length cs"
  by (simp add: allocateElement_def split: option.splits)

lemma nth_allocateElement:
  "k < length cs \<Longrightarrow>
   allocateElement cs e ! k = (if ownerIndex e cs = Some k then pushElement e (cs ! k) else cs ! k)"
  by (auto simp: allocateElement_def nth_list_update split: option.splits)

lemma allocateElements_snoc:
  "allocateElements cs (es @ [e]) = allocateElement (allocateElements cs es) e"
  by (simp add: allocateElements_def)

lemma ownerIndex_allocateElements:
  "ownerIndex e (allocateElements cs es) = ownerIndex e cs"
  by (induction es rule: rev_induct)
     (simp_all add: allocateElements_snoc ownerIndex_allocateElement, simp add: allocateElements_def)

lemma length_allocateElements: "length (allocateElements cs es) = length cs"
  by (induction es rule: rev_induct)
     (simp add: allocateElements_def, simp add: allocateElements_snoc length_allocateElement)

lemma nth_allocateElements:
  "k < length cs \<Longrightarrow>
   allocateElements cs es ! k =
     (cs ! k)\<lparr>elements := elements (cs ! k) @ filter (\<lambda>e. ownerIndex e cs = Some k) es\<rparr>"
proof (induction es rule: rev_induct)
  case Nil
  then show ?case by (simp add: allocateElements_def)
next
  case (snoc e es)
  then show ?case
    by (simp add: allocateElements_snoc nth_allocateElement length_allocateElements
        ownerIndex_allocateElements pushElement_def)
qed

text \<open>
  C6. The overlap percentage of an element with a cell is 100 times the area of their
  intersection over the area of the element, and 0 for an element of area zero. An
  element is pushed onto the first cell of the list whose percentage exceeds 50 and onto
  no other cell; when no cell exceeds 50 the cells are left as they are. After the whole
  loop each cell holds, in element order, exactly the elements it is that first cell for.
\<close>

theorem element_bound_to_first_majority_cell:
  "getPercentageOfElementInCell e c =
     (if width e * height e = 0 then 0
      else 100 * (width (intersect e c) * height (intersect e c)) / (width e * height e)) \<and>
   length (allocateElement cells e) = length cells \<and>
   (case ownerIndex e cells of
      None \<Rightarrow> (\<forall>c\<in>set cells. \<not> getPercentageOfElementInCell e c > 50) \<and>
              allocateElement cells e = cells
    | Some i \<Rightarrow> i < length cells \<and> getPercentageOfElementInCell e (cells ! i) > 50 \<and>
               (\<forall>j<i. \<not> getPercentageOfElementInCell e (cells ! j) > 50) \<and>
               (\<forall>k<length cells. allocateElement cells e ! k =
                  (if k = i then (cells ! k)\<lparr>elements := elements (cells ! k) @ [e]\<rparr>
                   else cells ! k))) \<and>
   length (allocateElements cells es) = length cells \<and>
   (\<forall>k<length cells. allocateElements cells es ! k =
      (cells ! k)\<lparr>elements := elements (cells ! k) @ filter (\<lambda>e. ownerIndex e cells = Some k) es\<rparr>)"
proof -
  have a: "getPercentageOfElementInCell e c =
     (if width e * height e = 0 then 0
      else 100 * (width (intersect e c) * height (intersect e c)) / (width e * height e))"
    by (simp add: getPercentageOfElementInCell_def getArea_def intersect_def Let_def max.commute min.commute)
  have b: "(case ownerIndex e cells of
      None \<Rightarrow> (\<forall>c\<in>set cells. \<not> getPercentageOfElementInCell e c > 50) \<and>
              allocateElement cells e = cells
    | Some i \<Rightarrow> i < length cells \<and> getPercentageOfElementInCell e (cells ! i) > 50 \<and>
               (\<forall>j<i. \<not> getPercentageOfElementInCell e (cells ! j) > 50) \<and>
               (\<forall>k<length cells. allocateElement cells e ! k =
                  (if k = i then (cells ! k)\<lparr>elements := elements (cells ! k) @ [e]\<rparr>
                   else cells ! k)))"
  proof (cases "ownerIndex e cells")
    case None
    then show ?thesis
      using ownerIndex_None [of e cells] by (simp add: allocateElement_def)
  next
    case (Some i)
    then show ?thesis
      using ownerIndex_Some [OF Some] by (simp add: nth_allocateElement pushElement_def)
  qed
  show ?thesis
    using a b by (simp add: length_allocateElement length_allocateElements nth_allocateElements)
qed

theorem element_bound_to_first_majority_cell_witness:
  "ownerIndex \<lparr>x = 11, y = 1, width = 5, height = 5, text = ''Town''\<rparr>
     [\<lparr>x = 0, y = 0, width = 10, height = 10, elements = []\<rparr>,
      \<lparr>x = 10, y = 0, width = 10, height = 10, elements = []\<rparr>,
      \<lparr>x = 10, y = 0, width = 20, height = 10, elements = []\<rparr>] = Some 1 \<and>
   allocateElement
     [\<lparr>x = 0, y = 0, width = 10, height = 10, elements = []\<rparr>,
      \<lparr>x = 10, y = 0, width = 10, height = 10, elements = []\<rparr>,
      \<lparr>x = 10, y = 0, width = 20, height = 10, elements = []\<rparr>]
     \<lparr>x = 11, y = 1, width = 5, height = 5, text = ''Town''\<rparr> =
     [\<lparr>x = 0, y = 0, width = 10, height = 10, elements = []\<rparr>,
      \<lparr>x = 10, y = 0, width = 10, height = 10,
       elements = [\<lparr>x = 11, y = 1, width = 5, height = 5, text = ''Town''\<rparr>]\<rparr>,
      \<lparr>x = 10, y = 0, width = 20, height = 10, elements = []\<rparr>] \<and>
   getPercentageOfElementInCell \<lparr>x = 11, y = 1, width = 5, height = 5, text = ''Town''\<rparr>
     \<lparr>x = 10, y = 0, width = 10, height = 10, elements = []\<rparr> = 100"
  using element_bound_to_first_majority_cell
    [of "\<lparr>x = 11, y = 1, width = 5, height = 5, text = ''Town''\<rparr>"
        "\<lparr>x = 10, y = 0, width = 10, height = 10, elements = []\<rparr>"
        "[\<lparr>x = 0, y = 0, width = 10, height = 10, elements = []\<rparr>,
          \<lparr>x = 10, y = 0, width = 10, height = 10, elements = []\<rparr>,
          \<lparr>x = 10, y = 0, width = 20, height = 10, elements = []\<rparr>]"
        "[]"]
  by (simp add: getPercentageOfElementInCell_def getArea_def intersect_def allocateElement_def
      pushElement_def)

subsection \<open>The derivative matcher decides the language\<close>

lemma nullable_lang: "nullable r \<longleftrightarrow> [] \<in> lang r"
  by (induction r) (auto intro: star.star_empty)

lemma star_Cons_split:
  "z \<in> star A \<Longrightarrow> z = c # w \<Longrightarrow> \<exists>u v. w = u @ v \<and> c # u \<in> A \<and> v \<in> star A"
proof (induction arbitrary: w rule: star.induct)
  case star_empty
  then show ?case by simp
next
  case (star_step u v)
  show ?case
  proof (cases u)
    case Nil
    with star_step show ?thesis by simp
  next
    case (Cons a u')
    with star_step.prems star_step.hyps show ?thesis by auto
  qed
qed

lemma star_Cons_iff:
  "c # w \<in> star A \<longleftrightarrow> (\<exists>u v. w = u @ v \<and> c # u \<in> A \<and> v \<in> star A)"
proof
  assume "c # w \<in> star A"
  then show "\<exists>u v. w = u @ v \<and> c # u \<in> A \<and> v \<in> star A"
    by (rule star_Cons_split) simp
next
  assume "\<exists>u v. w = u @ v \<and> c # u \<in> A \<and> v \<in> star A"
  then obtain u v where "w = u @ v" "c # u \<in> A" "v \<in> star A" by blast
  then show "c # w \<in> star A"
    using star.star_step [of "c # u" A v] by simp
qed

lemma deriv_lang: "w \<in> lang (deriv c r) \<longleftrightarrow> c # w \<in> lang r"
proof (induction r arbitrary: w)
  case (Times r1 r2)
  have "c # w \<in> lang (Times r1 r2) \<longleftrightarrow>
        ([] \<in> lang r1 \<and> c # w \<in> lang r2) \<or>
        (\<exists>u v. w = u @ v \<and> c # u \<in> lang r1 \<and> v \<in> lang r2)"
    by (auto simp: Cons_eq_append_conv)
  then show ?case
    using Times by (auto simp: nullable_lang)
next
  case (Star r)
  then show ?case by (simp add: star_Cons_iff)
qed auto

lemma matches_lang: "matches r s \<longleftrightarrow> s \<in> lang r"
  by (induction s arbitrary: r) (simp_all add: nullable_lang deriv_lang)

lemma regexTest_iff:
  "regexTest r s \<longleftrightarrow> (\<exists>before u after. s = before @ u @ after \<and> u \<in> lang r)"
proof
  assume "regexTest r s"
  then obtain t u where "suffix t s" "prefix u t" "u \<in> lang r"
    by (auto simp: regexTest_def list_ex_iff matches_lang)
  then show "\<exists>before u after. s = before @ u @ after \<and> u \<in> lang r"
    by (auto simp: suffix_def prefix_def)
next
  assume "\<exists>before u after. s = before @ u @ after \<and> u \<in> lang r"
  then obtain before u after where s: "s = before @ u @ after" and u: "u \<in> lang r" by blast
  have "u @ after \<in> set (suffixes s)" "u \<in> set (prefixes (u @ after))"
    by (simp_all add: s suffix_def)
  with u show "regexTest r s"
    unfolding regexTest_def list_ex_iff matches_lang by blast
qed

lemma star_atoms: "star {[c] | c. p c} = {w. list_all p w}"
proof (intro set_eqI iffI)
  fix w assume "w \<in> star {[c] | c. p c}"
  then show "w \<in> {w. list_all p w}"
    by (induction rule: star.induct) auto
next
  fix w assume "w \<in> {w. list_all p w}"
  then have "list_all p w" by simp
  then show "w \<in> star {[c] | c. p c}"
  proof (induction w)
    case Nil
    show ?case by (rule star.star_empty)
  next
    case (Cons c w)
    then have "[c] \<in> {[c] | c. p c}" "w \<in> star {[c] | c. p c}" by simp_all
    then have "[c] @ w \<in> star {[c] | c. p c}" by (rule star.star_step)
    then show ?case by simp
  qed
qed

lemma lang_oneOrMore_Atom: "lang (oneOrMore (Atom p)) = {w. w \<noteq> [] \<and> list_all p w}"
proof (intro set_eqI iffI)
  fix w assume "w \<in> lang (oneOrMore (Atom p))"
  then show "w \<in> {w. w \<noteq> [] \<and> list_all p w}"
    by (auto simp: oneOrMore_def star_atoms)
next
  fix w assume "w \<in> {w. w \<noteq> [] \<and> list_all p w}"
  then obtain c v where w: "w = c # v" and "p c" "list_all p v" by (cases w) auto
  then have "[c] \<in> lang (Atom p)" "v \<in> lang (Star (Atom p))" by (simp_all add: star_atoms)
  then have "[c] @ v \<in> lang (Times (Atom p) (Star (Atom p)))"
    unfolding lang.simps(5) by blast
  then show "w \<in> lang (oneOrMore (Atom p))" by (simp add: oneOrMore_def w)
qed

lemma lang_applicationNumberPattern:
  "lang applicationNumberPattern =
     {a @ ''/'' @ b @ ''/'' @ c | a b c.
        a \<noteq> [] \<and> list_all isDigit a \<and> b \<noteq> [] \<and> list_all isDigit b \<and>
        c \<noteq> [] \<and> list_all isDigit c}"
  unfolding applicationNumberPattern_def lang.simps(5) lang_oneOrMore_Atom
  by (auto, blast+)

lemma regexTest_applicationNumberPattern:
  "regexTest applicationNumberPattern s \<longleftrightarrow>
     (\<exists>before a b c after.
        s = before @ a @ ''/'' @ b @ ''/'' @ c @ after \<and>
        a \<noteq> [] \<and> list_all isDigit a \<and> b \<noteq> [] \<and> list_all isDigit b \<and>
        c \<noteq> [] \<and> list_all isDigit c)"
proof
  assume "regexTest applicationNumberPattern s"
  then obtain before u after where s: "s = before @ u @ after"
    and "u \<in> lang applicationNumberPattern"
    unfolding regexTest_iff by blast
  then obtain a b c where u: "u = a @ ''/'' @ b @ ''/'' @ c" and
    d: "a \<noteq> []" "list_all isDigit a" "b \<noteq> []" "list_all isDigit b" "c \<noteq> []" "list_all isDigit c"
    unfolding lang_applicationNumberPattern by blast
  have "s = before @ a @ ''/'' @ b @ ''/'' @ c @ after" by (simp add: s u)
  with d show "\<exists>before a b c after.
        s = before @ a @ ''/'' @ b @ ''/'' @ c @ after \<and>
        a \<noteq> [] \<and> list_all isDigit a \<and> b \<noteq> [] \<and> list_all isDigit b \<and>
        c \<noteq> [] \<and> list_all isDigit c"
    by blast
next
  assume "\<exists>before a b c after.
        s = before @ a @ ''/'' @ b @ ''/'' @ c @ after \<and>
        a \<noteq> [] \<and> list_all isDigit a \<and> b \<noteq> [] \<and> list_all isDigit b \<and>
        c \<noteq> [] \<and> list_all isDigit c"
  then obtain before a b c after where
    s: "s = before @ (a @ ''/'' @ b @ ''/'' @ c) @ after" and
    d: "a \<noteq> []" "list_all isDigit a" "b \<noteq> []" "list_all isDigit b" "c \<noteq> []" "list_all isDigit c"
    by auto
  from d have "a @ ''/'' @ b @ ''/'' @ c \<in> lang applicationNumberPattern"
    unfolding lang_applicationNumberPattern by blast
  with s show "regexTest applicationNumberPattern s"
    unfolding regexTest_iff by blast
qed



subsection \<open>Identifier check\<close>

text \<open>
  C10. The identifier check is a substring test: the pattern test holds for a text exactly
  when the text contains a non-empty run of digits, a slash, a non-empty run of digits, a
  slash and a non-empty run of digits, with any text before and after. A row with no
  identifier cell, or whose identifier text fails the test, is skipped without a message;
  a row whose identifier text passes is logged as found.
\<close>

theorem identifier_check_is_substring_test:
  "(regexTest applicationNumberPattern s \<longleftrightarrow>
      (\<exists>before a b c after.
         s = before @ a @ ''/'' @ b @ ''/'' @ c @ after \<and>
         a \<noteq> [] \<and> list_all isDigit a \<and> b \<noteq> [] \<and> list_all isDigit b \<and>
         c \<noteq> [] \<and> list_all isDigit c)) \<and>
   (case findCell row (applicationNumberHeadingCell h) of
      None \<Rightarrow> processRow lib gaz url h row = (None, [])
    | Some numberCell \<Rightarrow>
        if regexTest applicationNumberPattern (applicationNumberText numberCell)
        then \<exists>r msgs. processRow lib gaz url h row =
               (r, (''Found development application '' @ applicationNumberText numberCell @ ''.'')
                   # msgs)
        else processRow lib gaz url h row = (None, []))"
proof -
  have "case findCell row (applicationNumberHeadingCell h) of
      None \<Rightarrow> processRow lib gaz url h row = (None, [])
    | Some numberCell \<Rightarrow>
        if regexTest applicationNumberPattern (applicationNumberText numberCell)
        then \<exists>r msgs. processRow lib gaz url h row =
               (r, (''Found development application '' @ applicationNumberText numberCell @ ''.'')
                   # msgs)
        else processRow lib gaz url h row = (None, [])"
    by (simp add: processRow_def Let_def split: option.splits)
  with regexTest_applicationNumberPattern [of s] show ?thesis by simp
qed

theorem identifier_check_is_substring_test_witness:
  "(\<exists>before a b c after.
      ''X 910/144/16 Y'' = before @ a @ ''/'' @ b @ ''/'' @ c @ after \<and>
      a \<noteq> [] \<and> list_all isDigit a \<and> b \<noteq> [] \<and> list_all isDigit b \<and>
      c \<noteq> [] \<and> list_all isDigit c) \<and>
   regexTest applicationNumberPattern ''X 910/144/16 Y'' \<and>
   \<not> regexTest applicationNumberPattern ''ABC123''"
proof -
  have t: "regexTest applicationNumberPattern ''X 910/144/16 Y''"
    by (simp add: regexTest_def applicationNumberPattern_def oneOrMore_def isDigit_def)
  have f: "\<not> regexTest applicationNumberPattern ''ABC123''"
    by (simp add: regexTest_def applicationNumberPattern_def oneOrMore_def isDigit_def)
  from identifier_check_is_substring_test [where s = "''X 910/144/16 Y''" and row = "[]"] t f
  show ?thesis by blast
qed

subsection \<open>Street names\<close>

lemma split_not_Nil: "split separator s \<noteq> []"
  by (induction s) (auto split: list.splits)

text \<open>
  C8. With a suffix table mapping \<open>RD\<close> to \<open>ROAD\<close> and a street table containing
  \<open>SMYTH ROAD\<close>, the street text \<open>22 SMYTH RD\<close> is formatted as \<open>22 SMYTH ROAD\<close>, whatever
  else the tables contain and whatever the fuzzy matcher would return.
\<close>

theorem formatStreetName_SMYTH_RD:
  assumes "map_of (StreetSuffixes gaz) ''RD'' = Some ''ROAD''"
    and "map_of (StreetNames gaz) ''SMYTH ROAD'' \<noteq> None"
  shows "formatStreetName lib gaz (Some ''22 SMYTH RD'') = Some ''22 SMYTH ROAD''"
proof -
  have tokens: "split (CHR '' '') (toUpperCase (trim ''22 SMYTH RD'')) = [''22'', ''SMYTH'', ''RD'']"
    by (simp add: trim_def toUpperCase_def isWhitespace_def)
  show ?thesis
    using assms by (simp add: formatStreetName_def tokens sliceFromEnd_def)
qed

theorem formatStreetName_SMYTH_RD_witness:
  "formatStreetName sampleLibraries sampleGazetteer (Some ''22 SMYTH RD'') = Some ''22 SMYTH ROAD''"
  by (rule formatStreetName_SMYTH_RD) (simp_all add: sampleGazetteer_def)

subsection \<open>Heading detection\<close>

lemma findHeadingCell_None:
  "findHeadingCell label cells = None \<longleftrightarrow>
     \<not> (\<exists>c\<in>set cells. \<exists>e\<in>set (elements c). removeWhitespace (toLowerCase (text e)) = label)"
  by (auto simp: findHeadingCell_def find_None_iff list_ex_iff)

text \<open>
  C2, as stated, fails: the heading search compares each text element of a cell on its
  own and never joins them. A cell holding \<open>D/A\<close> and \<open>Number\<close> as two elements, whose
  joined text normalises to the label, is not found.
\<close>

theorem heading_found_by_single_element_counterexample:
  "removeWhitespace (toLowerCase (join []
     (map text (elements
        \<lparr>x = 0, y = 0, width = 60, height = 20,
         elements = [\<lparr>x = 2, y = 2, width = 20, height = 8, text = ''D/A''\<rparr>,
                     \<lparr>x = 2, y = 11, width = 40, height = 8, text = ''Number''\<rparr>]\<rparr>))))
     = ''d/anumber'' \<and>
   findHeadingCell ''d/anumber''
     [\<lparr>x = 0, y = 0, width = 60, height = 20,
       elements = [\<lparr>x = 2, y = 2, width = 20, height = 8, text = ''D/A''\<rparr>,
                   \<lparr>x = 2, y = 11, width = 40, height = 8, text = ''Number''\<rparr>]\<rparr>] = None"
proof -
  have n1: "removeWhitespace (toLowerCase ''D/A'') = ''d/a''"
    by (simp add: removeWhitespace_def toLowerCase_def isWhitespace_def)
  have n2: "removeWhitespace (toLowerCase ''Number'') = ''number''"
    by (simp add: removeWhitespace_def toLowerCase_def isWhitespace_def)
  have n3: "removeWhitespace (toLowerCase ''D/ANumber'') = ''d/anumber''"
    by (simp add: removeWhitespace_def toLowerCase_def isWhitespace_def)
  show ?thesis
    by (simp add: findHeadingCell_def n1 n2 n3)
qed

text \<open>
  C2, amended. A heading cell for a label is found exactly when some cell has at least
  one bound text element whose own text, lower-cased and with whitespace removed, equals
  the label; the cell found is the first such cell of the list.
\<close>

theorem heading_found_by_single_element:
  "(findHeadingCell label cells \<noteq> None \<longleftrightarrow>
      (\<exists>c\<in>set cells. \<exists>e\<in>set (elements c). removeWhitespace (toLowerCase (text e)) = label)) \<and>
   (findHeadingCell label cells = Some c \<longleftrightarrow>
      (\<exists>i<length cells. cells ! i = c \<and>
         (\<exists>e\<in>set (elements c). removeWhitespace (toLowerCase (text e)) = label) \<and>
         (\<forall>j<i. \<not> (\<exists>e\<in>set (elements (cells ! j)).
                     removeWhitespace (toLowerCase (text e)) = label))))"
proof -
  have "findHeadingCell label cells = Some c \<longleftrightarrow>
      (\<exists>i<length cells. cells ! i = c \<and>
         (\<exists>e\<in>set (elements c). removeWhitespace (toLowerCase (text e)) = label) \<and>
         (\<forall>j<i. \<not> (\<exists>e\<in>set (elements (cells ! j)).
                     removeWhitespace (toLowerCase (text e)) = label)))"
    unfolding findHeadingCell_def find_Some_iff list_ex_iff by blast
  with findHeadingCell_None [of label cells] show ?thesis by simp
qed

theorem heading_found_by_single_element_witness:
  "findHeadingCell ''d/anumber''
     [\<lparr>x = 0, y = 0, width = 60, height = 20,
       elements = [\<lparr>x = 2, y = 2, width = 20, height = 8, text = ''Development''\<rparr>]\<rparr>,
      \<lparr>x = 0, y = 0, width = 60, height = 20,
       elements = [\<lparr>x = 2, y = 2, width = 20, height = 8, text = ''D/A  Number ''\<rparr>]\<rparr>]
   = Some \<lparr>x = 0, y = 0, width = 60, height = 20,
       elements = [\<lparr>x = 2, y = 2, width = 20, height = 8, text = ''D/A  Number ''\<rparr>]\<rparr> \<and>
   list_ex (\<lambda>c. list_ex (\<lambda>e. removeWhitespace (toLowerCase (text e)) = ''d/anumber'') (elements c))
     [\<lparr>x = 0, y = 0, width = 60, height = 20,
       elements = [\<lparr>x = 2, y = 2, width = 20, height = 8, text = ''Development''\<rparr>]\<rparr>,
      \<lparr>x = 0, y = 0, width = 60, height = 20,
       elements = [\<lparr>x = 2, y = 2, width = 20, height = 8, text = ''D/A  Number ''\<rparr>]\<rparr>]"
proof -
  have n1: "removeWhitespace (toLowerCase ''Development'') = ''development''"
    by (simp add: removeWhitespace_def toLowerCase_def isWhitespace_def)
  have n2: "removeWhitespace (toLowerCase ''D/A  Number '') = ''d/anumber''"
    by (simp add: removeWhitespace_def toLowerCase_def isWhitespace_def)
  have f: "findHeadingCell ''d/anumber''
     [\<lparr>x = 0, y = 0, width = 60, height = 20,
       elements = [\<lparr>x = 2, y = 2, width = 20, height = 8, text = ''Development''\<rparr>]\<rparr>,
      \<lparr>x = 0, y = 0, width = 60, height = 20,
       elements = [\<lparr>x = 2, y = 2, width = 20, height = 8, text = ''D/A  Number ''\<rparr>]\<rparr>]
   = Some \<lparr>x = 0, y = 0, width = 60, height = 20,
       elements = [\<lparr>x = 2, y = 2, width = 20, height = 8, text = ''D/A  Number ''\<rparr>]\<rparr>"
    by (simp add: findHeadingCell_def n1 n2)
  from heading_found_by_single_element
    [of "''d/anumber''"
        "[\<lparr>x = 0, y = 0, width = 60, height = 20,
       elements = [\<lparr>x = 2, y = 2, width = 20, height = 8, text = ''Development''\<rparr>]\<rparr>,
      \<lparr>x = 0, y = 0, width = 60, height = 20,
       elements = [\<lparr>x = 2, y = 2, width = 20, height = 8, text = ''D/A  Number ''\<rparr>]\<rparr>]"] f
  show ?thesis unfolding list_ex_iff by blast
qed


subsection \<open>Record builder\<close>

lemma trim_eq_Nil: "trim s = [] \<longleftrightarrow> (\<forall>c\<in>set s. isWhitespace c)"
proof -
  have "dropWhile isWhitespace (rev (dropWhile isWhitespace s)) = [] \<longleftrightarrow>
        dropWhile isWhitespace s = []"
  proof
    assume a: "dropWhile isWhitespace (rev (dropWhile isWhitespace s)) = []"
    show "dropWhile isWhitespace s = []"
    proof (rule ccontr)
      assume n: "dropWhile isWhitespace s \<noteq> []"
      then have "\<not> isWhitespace (hd (dropWhile isWhitespace s))" by (rule hd_dropWhile)
      moreover from n have "hd (dropWhile isWhitespace s) \<in> set (rev (dropWhile isWhitespace s))"
        by simp
      ultimately show False using a by (auto simp: dropWhile_eq_Nil_conv)
    qed
  next
    assume e: "dropWhile isWhitespace s = []"
    show "dropWhile isWhitespace (rev (dropWhile isWhitespace s)) = []"
      unfolding e by simp
  qed
  then have "trim s = [] \<longleftrightarrow> dropWhile isWhitespace s = []"
    by (simp only: trim_def rev_is_Nil_conv)
  then show ?thesis by (simp only: dropWhile_eq_Nil_conv)
qed

lemma trim_nonempty_has_text: "trim s \<noteq> [] \<Longrightarrow> \<exists>c\<in>set (trim s). \<not> isWhitespace c"
proof -
  assume n: "trim s \<noteq> []"
  let ?d = "dropWhile isWhitespace (rev (dropWhile isWhitespace s))"
  from n have d: "?d \<noteq> []" by (simp add: trim_def)
  then have "\<not> isWhitespace (hd ?d)" by (rule hd_dropWhile)
  moreover from d have "hd ?d \<in> set (trim s)" by (simp add: trim_def)
  ultimately show ?thesis by blast
qed

lemma replaceAll_nonempty:
  "s \<noteq> [] \<Longrightarrow> replacement \<noteq> [] \<Longrightarrow> replaceAll pattern replacement s \<noteq> []"
  by (cases s) auto

lemma specialCases_nonempty: "s \<noteq> [] \<Longrightarrow> specialCases s \<noteq> []"
  by (simp add: specialCases_def replaceAll_nonempty)

lemma formatAddress_nonempty: "trim a \<noteq> [] \<Longrightarrow> formatAddress lib gaz a \<noteq> []"
  by (simp add: formatAddress_def Let_def specialCases_nonempty split: option.splits)

lemma address_text_nonempty:
  assumes "trim s \<noteq> []"
  shows "trim (trim s @ '', '' @ t) \<noteq> []"
proof -
  from trim_nonempty_has_text [OF assms] show ?thesis
    by (auto simp: trim_eq_Nil)
qed

lemma cellText_address_nonempty:
  "cellText streetCell \<noteq> [] \<Longrightarrow>
   formatAddress lib gaz (cellText streetCell @ '', '' @ cellText suburbCell) \<noteq> []"
  unfolding cellText_def by (intro formatAddress_nonempty address_text_nonempty)

lemma processRow_accepted:
  assumes "acceptedRow h row"
  shows "processRow lib gaz url h row =
     (Some \<lparr>applicationNumber =
              applicationNumberText (the (findCell row (applicationNumberHeadingCell h))),
            address = formatAddress lib gaz
              (cellText (the (findCell row (streetNameHeadingCell h))) @ '', '' @
               cellText (the (findCell row (suburbNameHeadingCell h)))),
            description =
              (case findCell row (descriptionHeadingCell h) of
                 None \<Rightarrow> ''No Description Provided''
               | Some c \<Rightarrow> if cellText c = [] then ''No Description Provided'' else cellText c),
            informationUrl = url,
            commentUrl = CommentUrl,
            scrapeDate = today lib,
            receivedDate =
              (case findCell row (receivedDateHeadingCell h) of
                 None \<Rightarrow> []
               | Some c \<Rightarrow>
                   (case elements c of
                      [] \<Rightarrow> []
                    | e # es \<Rightarrow> (case moment lib (trim (text e)) of None \<Rightarrow> [] | Some d \<Rightarrow> d))),
            legalDescription =
              (case findCell row (legalDescriptionHeadingCell h) of
                 None \<Rightarrow> []
               | Some c \<Rightarrow> cellText c)\<rparr>,
      [''Found development application '' @
       applicationNumberText (the (findCell row (applicationNumberHeadingCell h))) @ ''.''])"
proof -
  from assms obtain numberCell streetCell suburbCell where
    c: "findCell row (applicationNumberHeadingCell h) = Some numberCell"
       "findCell row (streetNameHeadingCell h) = Some streetCell"
       "findCell row (suburbNameHeadingCell h) = Some suburbCell" and
    t: "regexTest applicationNumberPattern (applicationNumberText numberCell)"
       "cellText streetCell \<noteq> []" "cellText suburbCell \<noteq> []"
    by (auto simp: acceptedRow_def split: option.splits)
  note a = cellText_address_nonempty [OF t(2), of lib gaz suburbCell]
  show ?thesis
    using c t a by (simp add: processRow_def Let_def split: option.splits list.splits)
qed

lemma processRow_rejected:
  "\<not> acceptedRow h row \<Longrightarrow> fst (processRow lib gaz url h row) = None"
  by (auto simp: processRow_def acceptedRow_def Let_def split: option.splits)



subsection \<open>Evaluating the sample register\<close>

lemma sample_findCell:
  "findCell (sampleRow n r s t) (applicationNumberHeadingCell sampleHeadings) = Some (sampleCell 0 20 [n])"
  "findCell (sampleRow n r s t) (receivedDateHeadingCell sampleHeadings) = Some (sampleCell 100 20 [r])"
  "findCell (sampleRow n r s t) (streetNameHeadingCell sampleHeadings) = Some (sampleCell 200 20 [s])"
  "findCell (sampleRow n r s t) (suburbNameHeadingCell sampleHeadings) = Some (sampleCell 300 20 [t])"
  "findCell (sampleRow n r s t) (legalDescriptionHeadingCell sampleHeadings) = None"
  "findCell (sampleRow n r s t) (descriptionHeadingCell sampleHeadings) = None"
  by (simp_all add: findCell_def sampleRow_def sampleHeadings_def sampleCell_def
      getHorizontalOverlapPercentage_def)

lemma sample_applicationNumberText:
  "applicationNumberText (sampleCell cx cy [''910/144/16'']) = ''910/144/16''"
  by (simp add: applicationNumberText_def sampleCell_def trim_def isWhitespace_def)

lemma sample_cellText:
  "cellText (sampleCell cx cy [''1 MAIN ST'']) = ''1 MAIN ST''"
  "cellText (sampleCell cx cy [''ATLANTIS'']) = ''ATLANTIS''"
  "cellText (sampleCell cx cy [''CUMMINS'']) = ''CUMMINS''"
  by (simp_all add: cellText_def sampleCell_def trim_def isWhitespace_def)

lemma sample_number: "regexTest applicationNumberPattern ''910/144/16''"
  by (simp add: regexTest_def applicationNumberPattern_def oneOrMore_def isDigit_def)

lemma sample_accepted_ATLANTIS:
  "acceptedRow sampleHeadings (sampleRow ''910/144/16'' r ''1 MAIN ST'' ''ATLANTIS'')"
  by (simp add: acceptedRow_def sample_findCell sample_applicationNumberText sample_cellText
      sample_number)

lemma sample_accepted_CUMMINS:
  "acceptedRow sampleHeadings (sampleRow ''910/144/16'' r ''1 MAIN ST'' ''CUMMINS'')"
  by (simp add: acceptedRow_def sample_findCell sample_applicationNumberText sample_cellText
      sample_number)


lemma sample_dates:
  "strictDayMonthYear ''soon'' = None"
  "strictDayMonthYear ''1/02/2019'' = Some ''2019-02-01''"
  by code_simp+

lemma sample_unresolved:
  "specialCases (trim ''1 MAIN ST, ATLANTIS'') = ''1 MAIN ST, ATLANTIS''"
  "lastIndexOf (CHR '','') ''1 MAIN ST, ATLANTIS'' = Some 9"
  "drop (9 + 1) ''1 MAIN ST, ATLANTIS'' = '' ATLANTIS''"
  by (simp_all add: specialCases_def trim_def isWhitespace_def)



lemma sample_normalized:
  "normalizeString '' ATLANTIS'' = ''atlantis''"
  "normalizeString ''CUMMINS'' = ''cummins''"
  by (simp_all add: normalizeString_def trim_def isWhitespace_def toLowerCase_def)

lemma sample_distance: "levenshtein ''atlantis'' ''cummins'' = 7"
  by code_simp

lemma sample_no_match:
  "editDistanceMatcher '' ATLANTIS'' (map fst (SuburbNames sampleGazetteer)) 2 = None"
  by (simp add: editDistanceMatcher_def sampleGazetteer_def sample_normalized sample_distance)

lemma sample_received:
  "elements (sampleCell cx cy [s]) = [\<lparr>x = cx + 5, y = cy + 5, width = 40, height = 8, text = s\<rparr>]"
  by (simp add: sampleCell_def)

lemma sample_trim:
  "trim ''soon'' = ''soon''"
  "trim ''1/02/2019'' = ''1/02/2019''"
  by (simp_all add: trim_def isWhitespace_def)


subsection \<open>Received date\<close>

text \<open>
  C7. When the row has no received-date cell, or that cell has no text element, or the
  first text element of the cell, trimmed, is not a valid date for the strict parser,
  every application pushed for the row has the empty string as its received date; and the
  row still pushes an application whenever it passes the checks of the record builder.
\<close>

theorem unparsable_received_date_is_empty:
  assumes "case findCell row (receivedDateHeadingCell h) of
             None \<Rightarrow> True
           | Some c \<Rightarrow> (case elements c of
                         [] \<Rightarrow> True
                       | e # es \<Rightarrow> moment lib (trim (text e)) = None)"
  shows "(acceptedRow h row \<longrightarrow> (\<exists>r msgs. processRow lib gaz url h row = (Some r, msgs))) \<and>
         (\<forall>r msgs. processRow lib gaz url h row = (Some r, msgs) \<longrightarrow> receivedDate r = [])"
proof (cases "acceptedRow h row")
  case True
  from processRow_accepted [OF True, of lib gaz url] assms show ?thesis
    by (auto split: option.splits list.splits)
next
  case False
  from processRow_rejected [OF False, of lib gaz url] show ?thesis
    using False by auto
qed

theorem unparsable_received_date_is_empty_witness:
  "acceptedRow sampleHeadings (sampleRow ''910/144/16'' ''soon'' ''1 MAIN ST'' ''CUMMINS'') \<and>
   moment sampleLibraries (trim ''soon'') = None \<and>
   (\<exists>r msgs. processRow sampleLibraries sampleGazetteer ''register.pdf'' sampleHeadings
                (sampleRow ''910/144/16'' ''soon'' ''1 MAIN ST'' ''CUMMINS'') = (Some r, msgs) \<and>
              receivedDate r = [])"
proof -
  have m: "moment sampleLibraries (trim ''soon'') = None"
    by (simp add: sampleLibraries_def sample_trim sample_dates)
  have d: "case findCell (sampleRow ''910/144/16'' ''soon'' ''1 MAIN ST'' ''CUMMINS'')
                  (receivedDateHeadingCell sampleHeadings) of
             None \<Rightarrow> True
           | Some c \<Rightarrow> (case elements c of
                         [] \<Rightarrow> True
                       | e # es \<Rightarrow> moment sampleLibraries (trim (text e)) = None)"
    by (simp add: sample_findCell sample_received m)
  from unparsable_received_date_is_empty [OF d, of sampleGazetteer "''register.pdf''"]
    sample_accepted_CUMMINS [of "''soon''"] m
  show ?thesis by blast
qed


subsection \<open>Absent optional headings\<close>

text \<open>
  C9. The horizontal overlap percentage is 0 when either rectangle is undefined, so the
  search of a row for the cell under an absent heading finds no cell. A row that passes
  the checks of the record builder still pushes an application: with an empty received
  date when the received-date heading is absent, an empty legal description when the
  legal-description heading is absent, and the placeholder description when the
  description heading is absent.
\<close>

theorem absent_optional_heading_gives_default:
  "getHorizontalOverlapPercentage (None :: cell option) (r2 :: cell option) = 0 \<and>
   getHorizontalOverlapPercentage (r1 :: cell option) (None :: cell option) = 0 \<and>
   findCell row None = None \<and>
   (acceptedRow h row \<longrightarrow>
      (\<exists>r msgs. processRow lib gaz url h row = (Some r, msgs) \<and>
         (receivedDateHeadingCell h = None \<longrightarrow> receivedDate r = []) \<and>
         (legalDescriptionHeadingCell h = None \<longrightarrow> legalDescription r = []) \<and>
         (descriptionHeadingCell h = None \<longrightarrow> description r = ''No Description Provided'')))"
proof -
  have a: "getHorizontalOverlapPercentage (None :: cell option) (r2 :: cell option) = 0"
    by (simp add: getHorizontalOverlapPercentage_def)
  have b: "getHorizontalOverlapPercentage (r1 :: cell option) (None :: cell option) = 0"
    by (simp add: getHorizontalOverlapPercentage_def split: option.splits)
  have c: "findCell cs None = None" for cs
    by (induction cs) (simp_all add: findCell_def getHorizontalOverlapPercentage_def)
  have d: "\<exists>r msgs. processRow lib gaz url h row = (Some r, msgs) \<and>
         (receivedDateHeadingCell h = None \<longrightarrow> receivedDate r = []) \<and>
         (legalDescriptionHeadingCell h = None \<longrightarrow> legalDescription r = []) \<and>
         (descriptionHeadingCell h = None \<longrightarrow> description r = ''No Description Provided'')"
    if "acceptedRow h row"
    using processRow_accepted [OF that, of lib gaz url] by (simp add: c)
  from a b c d show ?thesis by blast
qed

theorem absent_optional_heading_gives_default_witness:
  "acceptedRow sampleHeadings (sampleRow ''910/144/16'' ''1/02/2019'' ''1 MAIN ST'' ''CUMMINS'') \<and>
   legalDescriptionHeadingCell sampleHeadings = None \<and>
   descriptionHeadingCell sampleHeadings = None \<and>
   (\<exists>r msgs. processRow sampleLibraries sampleGazetteer ''register.pdf'' sampleHeadings
                (sampleRow ''910/144/16'' ''1/02/2019'' ''1 MAIN ST'' ''CUMMINS'') = (Some r, msgs) \<and>
              legalDescription r = [] \<and> description r = ''No Description Provided'')"
proof -
  have n: "legalDescriptionHeadingCell sampleHeadings = None"
          "descriptionHeadingCell sampleHeadings = None"
    by (simp_all add: sampleHeadings_def)
  from absent_optional_heading_gives_default
         [where h = sampleHeadings and lib = sampleLibraries and gaz = sampleGazetteer
            and url = "''register.pdf''"
            and row = "sampleRow ''910/144/16'' ''1/02/2019'' ''1 MAIN ST'' ''CUMMINS''"]
    sample_accepted_CUMMINS [of "''1/02/2019''"] n
  show ?thesis by blast
qed


subsection \<open>Unresolved suburbs\<close>

lemma formatAddress_unresolved:
  assumes "case lastIndexOf (CHR '','') (specialCases (trim a)) of
             None \<Rightarrow> True
           | Some commaIndex \<Rightarrow>
               didyoumean lib (drop (commaIndex + 1) (specialCases (trim a)))
                 (map fst (SuburbNames gaz)) 2 = None"
  shows "formatAddress lib gaz a = specialCases (trim a)"
  using assms by (simp add: formatAddress_def Let_def split: option.splits)

text \<open>
  C1, as stated, fails: when the fuzzy match finds no suburb, \<^verbatim>\<open>formatAddress\<close> returns the
  address it was given (trimmed, with the special cases substituted), which is never
  empty here, so the row pushes an application with the unresolved address. With only
  \<open>CUMMINS\<close> known, the row for \<open>1 MAIN ST\<close> in \<open>ATLANTIS\<close> is pushed.
\<close>

theorem unresolved_suburb_row_is_rejected_counterexample:
  "acceptedRow sampleHeadings (sampleRow ''910/144/16'' ''1/02/2019'' ''1 MAIN ST'' ''ATLANTIS'') \<and>
   didyoumean sampleLibraries '' ATLANTIS'' (map fst (SuburbNames sampleGazetteer)) 2 = None \<and>
   processRow sampleLibraries sampleGazetteer ''register.pdf'' sampleHeadings
     (sampleRow ''910/144/16'' ''1/02/2019'' ''1 MAIN ST'' ''ATLANTIS'') =
     (Some \<lparr>applicationNumber = ''910/144/16'',
            address = ''1 MAIN ST, ATLANTIS'',
            description = ''No Description Provided'',
            informationUrl = ''register.pdf'',
            commentUrl = ''mailto:mail@dclep.sa.gov.au'',
            scrapeDate = ''2019-02-27'',
            receivedDate = ''2019-02-01'',
            legalDescription = []\<rparr>,
      [''Found development application 910/144/16.''])"
proof -
  have m: "didyoumean sampleLibraries '' ATLANTIS'' (map fst (SuburbNames sampleGazetteer)) 2 = None"
    using sample_no_match by (simp add: sampleLibraries_def)
  have f: "formatAddress sampleLibraries sampleGazetteer (''1 MAIN ST'' @ '', '' @ ''ATLANTIS'')
             = ''1 MAIN ST, ATLANTIS''"
    using m by (simp add: formatAddress_unresolved sample_unresolved)
  have d: "moment sampleLibraries (trim ''1/02/2019'') = Some ''2019-02-01''"
          "today sampleLibraries = ''2019-02-27''"
    by (simp_all add: sampleLibraries_def sample_trim sample_dates)
  show ?thesis
    using processRow_accepted [OF sample_accepted_ATLANTIS,
            of sampleLibraries sampleGazetteer "''register.pdf''" "''1/02/2019''"] m f d
    by (simp add: sample_accepted_ATLANTIS sample_findCell sample_applicationNumberText
        sample_cellText sample_received CommentUrl_def)
qed

text \<open>
  C1, amended. For every row that passes the checks of the record builder, if the address
  has no comma or the fuzzy match of the text after its last comma against the known
  suburbs (edit-distance threshold 2) finds no candidate, then \<^verbatim>\<open>formatAddress\<close> returns the
  trimmed address with the special cases substituted, that address is not empty, and the
  row pushes an application with it.
\<close>

theorem unresolved_suburb_keeps_address:
  assumes "acceptedRow h row"
    and "findCell row (streetNameHeadingCell h) = Some streetCell"
    and "findCell row (suburbNameHeadingCell h) = Some suburbCell"
    and "addr = specialCases (trim (cellText streetCell @ '', '' @ cellText suburbCell))"
    and "case lastIndexOf (CHR '','') addr of
           None \<Rightarrow> True
         | Some commaIndex \<Rightarrow>
             didyoumean lib (drop (commaIndex + 1) addr) (map fst (SuburbNames gaz)) 2 = None"
  shows "formatAddress lib gaz (cellText streetCell @ '', '' @ cellText suburbCell) = addr \<and>
         addr \<noteq> [] \<and>
         (\<exists>r msgs. processRow lib gaz url h row = (Some r, msgs) \<and> address r = addr)"
proof -
  have f: "formatAddress lib gaz (cellText streetCell @ '', '' @ cellText suburbCell) = addr"
    using assms(5) unfolding assms(4) by (rule formatAddress_unresolved)
  from assms(1,2) have "cellText streetCell \<noteq> []"
    by (simp add: acceptedRow_def split: option.splits)
  from cellText_address_nonempty [OF this, of lib gaz suburbCell] f have n: "addr \<noteq> []" by simp
  from processRow_accepted [OF assms(1), of lib gaz url] assms(2,3) f n show ?thesis by simp
qed

theorem unresolved_suburb_keeps_address_witness:
  "acceptedRow sampleHeadings (sampleRow ''910/144/16'' ''1/02/2019'' ''1 MAIN ST'' ''ATLANTIS'') \<and>
   lastIndexOf (CHR '','') ''1 MAIN ST, ATLANTIS'' = Some 9 \<and>
   didyoumean sampleLibraries (drop (9 + 1) ''1 MAIN ST, ATLANTIS'')
     (map fst (SuburbNames sampleGazetteer)) 2 = None \<and>
   formatAddress sampleLibraries sampleGazetteer ''1 MAIN ST, ATLANTIS'' = ''1 MAIN ST, ATLANTIS'' \<and>
   (\<exists>r msgs. processRow sampleLibraries sampleGazetteer ''register.pdf'' sampleHeadings
                (sampleRow ''910/144/16'' ''1/02/2019'' ''1 MAIN ST'' ''ATLANTIS'') = (Some r, msgs) \<and>
              address r = ''1 MAIN ST, ATLANTIS'')"
proof -
  have m: "didyoumean sampleLibraries (drop (9 + 1) ''1 MAIN ST, ATLANTIS'')
             (map fst (SuburbNames sampleGazetteer)) 2 = None"
    using sample_no_match by (simp add: sampleLibraries_def)
  have a: "''1 MAIN ST, ATLANTIS'' =
           specialCases (trim (cellText (sampleCell 200 20 [''1 MAIN ST'']) @ '', '' @
                               cellText (sampleCell 300 20 [''ATLANTIS''])))"
    by (simp add: sample_cellText sample_unresolved)
  have c: "case lastIndexOf (CHR '','') ''1 MAIN ST, ATLANTIS'' of
           None \<Rightarrow> True
         | Some commaIndex \<Rightarrow>
             didyoumean sampleLibraries (drop (commaIndex + 1) ''1 MAIN ST, ATLANTIS'')
               (map fst (SuburbNames sampleGazetteer)) 2 = None"
    using m by (simp add: sample_unresolved)
  from unresolved_suburb_keeps_address
         [OF sample_accepted_ATLANTIS sample_findCell(3) sample_findCell(4) a c,
          of "''register.pdf''"]
    sample_accepted_ATLANTIS [of "''1/02/2019''"] m
  show ?thesis by (simp add: sample_cellText sample_unresolved)
qed

subsection \<open>Structural failures of a page\<close>











end
